theory Spec2Isabelle
  imports Main "HOL-Library.Word"
begin

section \<open>Go strings and the standard-library functions the code calls\<close>

text \<open>
  A Go string is a sequence of bytes; \<open>string\<close> (a list of 8-bit \<open>char\<close>s) is the
  same thing. The functions of this section are the ones of Go's \<open>strings\<close>,
  \<open>strconv\<close>, \<open>path/filepath\<close> and \<open>bufio\<close> packages that \<open>block_linux.go\<close> calls,
  written after their documented behaviour on byte strings.
\<close>

definition HasPrefix :: "string \<Rightarrow> string \<Rightarrow> bool" where
  \<comment> \<open>\<open>strings.HasPrefix(s, prefix)\<close>\<close>
  "HasPrefix s p = (take (length p) s = p)"

definition asciiSpace :: "char \<Rightarrow> bool" where
  \<comment> \<open>tab, newline, vertical tab, form feed, carriage return, space\<close>
  "asciiSpace c =
     (c = CHR 0x09 \<or> c = CHR 0x0A \<or> c = CHR 0x0B \<or> c = CHR 0x0C \<or> c = CHR 0x0D \<or> c = CHR 0x20)"

definition generalSpace :: "char \<Rightarrow> bool" where
  \<comment> \<open>third byte of U+2000..U+200A, U+2028, U+2029, U+202F, after \<open>E2 80\<close>\<close>
  "generalSpace d =
     ((0x80 \<le> (of_char d :: int) \<and> (of_char d :: int) \<le> 0x8A)
      \<or> d = CHR 0xA8 \<or> d = CHR 0xA9 \<or> d = CHR 0xAF)"

fun spaceWidth :: "string \<Rightarrow> nat" where
  \<comment> \<open>The number of bytes of the white-space rune (\<open>unicode.IsSpace\<close>) that starts the
      string in UTF-8, 0 when the string does not start with one: the six ASCII
      characters, U+0085, U+00A0, U+1680, U+2000..U+200A, U+2028, U+2029, U+202F, U+205F,
      U+3000.\<close>
  "spaceWidth [] = 0"
| "spaceWidth (c # cs) =
     (if asciiSpace c then 1
      else if c = CHR 0xC2 then
        (case cs of d # _ \<Rightarrow> if d = CHR 0x85 \<or> d = CHR 0xA0 then 2 else 0 | [] \<Rightarrow> 0)
      else if c = CHR 0xE1 then (if take 2 cs = [CHR 0x9A, CHR 0x80] then 3 else 0)
      else if c = CHR 0xE2 then
        (case cs of
           d # e # _ \<Rightarrow>
             if d = CHR 0x80 \<and> generalSpace e then 3
             else if d = CHR 0x81 \<and> e = CHR 0x9F then 3 else 0
         | _ \<Rightarrow> 0)
      else if c = CHR 0xE3 then (if take 2 cs = [CHR 0x80, CHR 0x80] then 3 else 0)
      else 0)"

definition spaceWidthEnd :: "string \<Rightarrow> nat" where
  \<comment> \<open>The number of bytes of the white-space rune that ends the string, 0 when there
      is none (\<open>utf8.DecodeLastRuneInString\<close> followed by \<open>unicode.IsSpace\<close>).\<close>
  "spaceWidthEnd s =
     (if s \<noteq> [] \<and> asciiSpace (last s) then 1
      else if 2 \<le> length s \<and> spaceWidth (drop (length s - 2) s) = 2 then 2
      else if 3 \<le> length s \<and> spaceWidth (drop (length s - 3) s) = 3 then 3
      else 0)"

lemma spaceWidth_pos_nonempty: "0 < spaceWidth s \<Longrightarrow> s \<noteq> []"
  by (cases s) simp_all

lemma spaceWidth_drop_shorter: "0 < spaceWidth s \<Longrightarrow> length s - spaceWidth s < length s"
  using spaceWidth_pos_nonempty [of s] by (cases s) simp_all

function trimLeft :: "string \<Rightarrow> string" where
  "trimLeft s = (if 0 < spaceWidth s then trimLeft (drop (spaceWidth s) s) else s)"
  by pat_completeness auto
termination
  by (relation "measure length") (simp_all add: spaceWidth_drop_shorter)

function trimRight :: "string \<Rightarrow> string" where
  "trimRight s =
     (if 0 < spaceWidthEnd s then trimRight (take (length s - spaceWidthEnd s) s) else s)"
  by pat_completeness auto
termination
  by (relation "measure length") (auto simp: spaceWidthEnd_def split: if_splits)

declare trimLeft.simps [simp del]
declare trimRight.simps [simp del]

definition TrimSpace :: "string \<Rightarrow> string" where
  \<comment> \<open>\<open>strings.TrimSpace\<close>: leading and trailing white space removed\<close>
  "TrimSpace s = trimRight (trimLeft s)"

function fieldsFrom :: "string \<Rightarrow> string \<Rightarrow> string list" where
  \<comment> \<open>\<open>cur\<close> is the field being read, the second argument what is left of the input\<close>
  "fieldsFrom cur [] = (if cur = [] then [] else [cur])"
| "fieldsFrom cur (c # cs) =
     (if 0 < spaceWidth (c # cs)
      then (if cur = [] then [] else [cur]) @ fieldsFrom [] (drop (spaceWidth (c # cs)) (c # cs))
      else fieldsFrom (cur @ [c]) cs)"
  by pat_completeness auto
termination
  by (relation "measure (\<lambda>(cur, s). length s)") auto

definition Fields :: "string \<Rightarrow> string list" where
  \<comment> \<open>\<open>strings.Fields\<close>: the maximal runs of bytes between white space\<close>
  "Fields s = fieldsFrom [] s"

fun Split :: "string \<Rightarrow> char \<Rightarrow> string list" where
  \<comment> \<open>\<open>strings.Split(s, sep)\<close> for a separator of one byte: never empty, \<open>[""]\<close> for
      the empty string\<close>
  "Split [] sep = [[]]"
| "Split (c # cs) sep =
     (if c = sep then [] # Split cs sep
      else (case Split cs sep of r # rs \<Rightarrow> (c # r) # rs | [] \<Rightarrow> [[c]]))"

definition SplitN2 :: "string \<Rightarrow> char \<Rightarrow> string list" where
  \<comment> \<open>\<open>strings.SplitN(s, sep, 2)\<close> for a separator of one byte: cut at the first
      separator, or the string alone when it has none\<close>
  "SplitN2 s sep =
     (if sep \<in> set s
      then [takeWhile (\<lambda>c. c \<noteq> sep) s, tl (dropWhile (\<lambda>c. c \<noteq> sep) s)]
      else [s])"

definition StringsJoin :: "string list \<Rightarrow> string \<Rightarrow> string" where
  \<comment> \<open>\<open>strings.Join(elems, sep)\<close>\<close>
  "StringsJoin elems sep = (case elems of [] \<Rightarrow> [] | e # es \<Rightarrow> e @ concat (map (\<lambda>x. sep @ x) es))"

subsection \<open>strconv\<close>

datatype numres = Num int | ErrSyntax | ErrRange

definition isDigit :: "char \<Rightarrow> bool" where
  "isDigit c = (48 \<le> (of_char c :: int) \<and> (of_char c :: int) \<le> 57)"

definition digitVal :: "char \<Rightarrow> int" where
  "digitVal c = of_char c - 48"

fun parseUintLoop :: "int \<Rightarrow> string \<Rightarrow> numres" where
  \<comment> \<open>The loop of \<open>strconv.ParseUint(s, 10, 64)\<close>: a byte that is not a decimal digit is
      a syntax error, a value that leaves 64 bits is a range error, whichever comes
      first from the left.\<close>
  "parseUintLoop n [] = Num n"
| "parseUintLoop n (c # cs) =
     (if \<not> isDigit c then ErrSyntax
      else if 2 ^ 64 \<le> n * 10 + digitVal c then ErrRange
      else parseUintLoop (n * 10 + digitVal c) cs)"

definition parseUint10 :: "string \<Rightarrow> numres" where
  "parseUint10 s = (if s = [] then ErrSyntax else parseUintLoop 0 s)"

definition ParseUint :: "string \<Rightarrow> 64 word option" where
  \<comment> \<open>\<open>strconv.ParseUint(s, 10, 64)\<close>; \<open>None\<close> is \<open>err != nil\<close> (the callers drop the
      value returned with an error)\<close>
  "ParseUint s = (case parseUint10 s of Num n \<Rightarrow> Some (word_of_int n) | _ \<Rightarrow> None)"

definition Atoi :: "string \<Rightarrow> int \<times> bool" where
  \<comment> \<open>\<open>strconv.Atoi\<close> where \<open>int\<close> has 64 bits: the value and whether \<open>err != nil\<close>.
      A syntax error comes with 0, a range error with the nearest bound.\<close>
  "Atoi s =
     (if s = [] then (0, True)
      else
        let neg = (hd s = CHR ''-'');
            digits = (if hd s = CHR ''+'' \<or> hd s = CHR ''-'' then tl s else s)
        in case parseUint10 digits of
             ErrSyntax \<Rightarrow> (0, True)
           | ErrRange \<Rightarrow> (if neg then (- (2 ^ 63), True) else (2 ^ 63 - 1, True))
           | Num un \<Rightarrow>
               if \<not> neg \<and> 2 ^ 63 \<le> un then (2 ^ 63 - 1, True)
               else if neg \<and> 2 ^ 63 < un then (- (2 ^ 63), True)
               else (if neg then - un else un, False))"

subsection \<open>path/filepath\<close>

definition Base :: "string \<Rightarrow> string" where
  \<comment> \<open>\<open>filepath.Base\<close>: the last element of the path, trailing slashes removed first;
      \<open>"."\<close> for the empty path and \<open>"/"\<close> for a path of slashes only\<close>
  "Base path =
     (if path = [] then ''.''
      else
        let p = rev (dropWhile (\<lambda>c. c = CHR ''/'') (rev path))
        in if p = [] then ''/'' else rev (takeWhile (\<lambda>c. c \<noteq> CHR ''/'') (rev p)))"

fun cleanElems :: "bool \<Rightarrow> string list \<Rightarrow> string list \<Rightarrow> string list" where
  \<comment> \<open>The elements \<open>filepath.Clean\<close> keeps: empty and \<open>.\<close> elements go, \<open>..\<close> removes the
      element before it, is dropped at the root, and stays at the start of a relative
      path.\<close>
  "cleanElems rooted out [] = out"
| "cleanElems rooted out (e # es) =
     (if e = [] \<or> e = ''.'' then cleanElems rooted out es
      else if e = ''..'' then
        (if out \<noteq> [] \<and> last out \<noteq> ''..'' then cleanElems rooted (butlast out) es
         else if rooted then cleanElems rooted out es
         else cleanElems rooted (out @ [''..'']) es)
      else cleanElems rooted (out @ [e]) es)"

definition Clean :: "string \<Rightarrow> string" where
  "Clean path =
     (if path = [] then ''.''
      else
        let rooted = (hd path = CHR ''/'');
            out = cleanElems rooted [] (Split path (CHR ''/''));
            r = (if rooted then ''/'' else []) @ StringsJoin out ''/''
        in if r = [] then ''.'' else r)"

definition Join :: "string list \<Rightarrow> string" where
  \<comment> \<open>\<open>filepath.Join\<close>: the elements from the first non-empty one on, joined by slashes
      and cleaned; the empty string when every element is empty\<close>
  "Join elem =
     (case dropWhile (\<lambda>e. e = []) elem of [] \<Rightarrow> [] | e # es \<Rightarrow> Clean (StringsJoin (e # es) ''/''))"

subsection \<open>bufio.Scanner\<close>

definition dropCR :: "string \<Rightarrow> string" where
  "dropCR data = (if data \<noteq> [] \<and> last data = CHR 0x0D then butlast data else data)"

definition maxScanTokenSize :: int where
  "maxScanTokenSize = 64 * 1024"

function scanLines :: "string \<Rightarrow> string list" where
  \<comment> \<open>The tokens a \<open>bufio.Scanner\<close> with the default split function and buffer hands out
      over the bytes of a file: the lines without their end-of-line marker, a last line
      with no newline included, and nothing from the first line on that does not fit
      the buffer (\<open>Scan\<close> returns false there, and the caller does not look at
      \<open>Err\<close>).\<close>
  "scanLines data =
     (if data = [] then []
      else
        let line = takeWhile (\<lambda>c. c \<noteq> CHR 0x0A) data
        in if maxScanTokenSize \<le> int (length line) then []
           else dropCR line # scanLines (drop (Suc (length line)) data))"
  by pat_completeness auto
termination
  by (relation "measure length") auto

declare scanLines.simps [simp del]

subsection \<open>strings.Replacer\<close>

fun lookup :: "(string \<times> string) list \<Rightarrow> string \<Rightarrow> (string \<times> string) option" where
  \<comment> \<open>The pair a \<open>strings.Replacer\<close> applies at the head of \<open>s\<close>: old strings are
      compared in argument order. An empty old string, which the Replacer treats
      apart, is in none of the source's argument lists and is passed over.\<close>
  "lookup [] s = None"
| "lookup ((old, new) # rest) s =
     (if old \<noteq> [] \<and> HasPrefix s old then Some (old, new) else lookup rest s)"

lemma lookup_Some_nonempty: "lookup oldnew s = Some (old, new) \<Longrightarrow> old \<noteq> []"
  by (induction oldnew) (auto split: if_splits)

function Replace :: "(string \<times> string) list \<Rightarrow> string \<Rightarrow> string" where
  \<comment> \<open>\<open>strings.NewReplacer(oldnew...).Replace(s)\<close>: one pass from the left; where a pair
      applies its new string is written and the old one skipped, elsewhere the byte is
      copied.\<close>
  "Replace oldnew [] = []"
| "Replace oldnew (c # cs) =
     (case lookup oldnew (c # cs) of
        Some (old, new) \<Rightarrow> new @ Replace oldnew (drop (length old) (c # cs))
      | None \<Rightarrow> c # Replace oldnew cs)"
  by pat_completeness auto
termination
  by (relation "measure (\<lambda>(oldnew, s). length s)") (auto dest: lookup_Some_nonempty)

section \<open>The data model\<close>

datatype DriveType =
  DRIVE_TYPE_UNKNOWN | DRIVE_TYPE_HDD | DRIVE_TYPE_FDD | DRIVE_TYPE_ODD | DRIVE_TYPE_SSD

datatype StorageController =
  STORAGE_CONTROLLER_UNKNOWN | STORAGE_CONTROLLER_IDE | STORAGE_CONTROLLER_SCSI
| STORAGE_CONTROLLER_NVME | STORAGE_CONTROLLER_VIRTIO | STORAGE_CONTROLLER_MMC

text \<open>
  The \<open>Partition\<close> struct as \<open>diskPartitions\<close> fills it. Its fields carry the prefix
  \<open>p\<close> here, since \<open>Disk\<close> has fields of the same names. The back-pointer \<open>Disk\<close> is
  kept as the name of the owning disk, \<open>None\<close> for the nil pointer.
\<close>

record Partition =
  pDisk :: "string option"
  pName :: string
  pSizeBytes :: "64 word"
  pMountPoint :: string
  pType :: string
  pIsReadOnly :: bool

record Disk =
  Name :: string
  SizeBytes :: "64 word"
  PhysicalBlockSizeBytes :: "64 word"
  DriveType :: DriveType
  IsRemovable :: bool
  StorageController :: StorageController
  BusPath :: string
  NUMANodeID :: int
  Vendor :: string
  Model :: string
  SerialNumber :: string
  WWN :: string
  Partitions :: "Partition list"

record BlockInfo =
  TotalPhysicalBytes :: "64 word"
  Disks :: "Disk list"

record mtabEntry =
  Partition :: string
  Mountpoint :: string
  FilesystemType :: string
  Options :: "string list"

text \<open>
  What \<open>ioutil.ReadFile\<close> returns: the contents, or an error together with the bytes
  read before it (none when the file could not be opened).
\<close>

datatype fileread = Contents string | ReadFailed string

text \<open>
  The host as the code sees it. The three paths are what \<open>pathSysBlock(ctx)\<close>,
  \<open>pathRunUdevData(ctx)\<close> and \<open>pathEtcMtab(ctx)\<close> return, and \<open>safeIntFromFile\<close> is the
  helper of that name; all four are declared outside \<open>block_linux.go\<close> and are
  parameters here. The other fields are the file system: \<open>os.Readlink\<close>,
  \<open>ioutil.ReadFile\<close>, the names \<open>ioutil.ReadDir\<close> lists (\<open>None\<close> is an error), and for
  \<open>os.Open\<close> the bytes the opened file delivers (\<open>None\<close> when it cannot be opened).
\<close>

record host =
  pathSysBlock :: string
  pathRunUdevData :: string
  pathEtcMtab :: string
  Readlink :: "string \<Rightarrow> string option"
  ReadFile :: "string \<Rightarrow> fileread"
  ReadDir :: "string \<Rightarrow> string list option"
  Open :: "string \<Rightarrow> string option"
  safeIntFromFile :: "string \<Rightarrow> int"

text \<open>A run-time panic of the Go program: an index out of range.\<close>

datatype panic = IndexOutOfRange

definition UNKNOWN :: string where
  \<comment> \<open>Modelled from the spec: the constant \<open>UNKNOWN\<close> is declared outside
      \<open>block_linux.go\<close>; it is the unknown-string sentinel, distinct from the empty
      string.\<close>
  "UNKNOWN = ''unknown''"

section \<open>block\_linux.go\<close>

definition sectorSize :: "64 word" where
  "sectorSize = 512"

definition diskPhysicalBlockSizeBytes :: "host \<Rightarrow> string \<Rightarrow> 64 word" where
  "diskPhysicalBlockSizeBytes ctx disk =
     (case ReadFile ctx (Join [pathSysBlock ctx, disk, ''queue'', ''physical_block_size'']) of
        ReadFailed _ \<Rightarrow> 0
      | Contents contents \<Rightarrow>
          (case ParseUint (TrimSpace contents) of None \<Rightarrow> 0 | Some sz \<Rightarrow> sz))"

definition diskSizeBytes :: "host \<Rightarrow> string \<Rightarrow> 64 word" where
  "diskSizeBytes ctx disk =
     (case ReadFile ctx (Join [pathSysBlock ctx, disk, ''size'']) of
        ReadFailed _ \<Rightarrow> 0
      | Contents contents \<Rightarrow>
          (case ParseUint (TrimSpace contents) of None \<Rightarrow> 0 | Some sz \<Rightarrow> sz * sectorSize))"

lemma Base_shape: "Base p = ''.'' \<or> Base p = ''/'' \<or> CHR ''/'' \<notin> set (Base p)"
proof -
  have "CHR ''/'' \<notin> set (takeWhile (\<lambda>c. c \<noteq> CHR ''/'') xs)" for xs
    by (induction xs) auto
  then show ?thesis by (auto simp: Base_def Let_def)
qed

lemma Base_not_devices: "\<not> HasPrefix (Base p) ''../devices/''"
proof
  assume "HasPrefix (Base p) ''../devices/''"
  then have t: "take (length ''../devices/'') (Base p) = ''../devices/''"
    unfolding HasPrefix_def .
  have "CHR ''/'' \<in> set ''../devices/''" by simp
  with t have "CHR ''/'' \<in> set (take (length ''../devices/'') (Base p))" by (simp only:)
  then have "CHR ''/'' \<in> set (Base p)" by (rule in_set_takeD)
  moreover have "Base p \<noteq> ''.''" using t by auto
  moreover have "Base p \<noteq> ''/''" using t by auto
  ultimately show False using Base_shape [of p] by blast
qed

function numaNodeLoop :: "host \<Rightarrow> string \<Rightarrow> int" where
  \<comment> \<open>The \<open>for\<close> loop of \<open>diskNUMANodeID\<close> from the value \<open>partial\<close> on, and the
      \<open>return -1\<close> after it. The inner block runs when \<open>ReadFile\<close> returned an error,
      and returns \<open>nodeInt\<close> when \<open>Atoi\<close> returned an error, as the source has it.\<close>
  "numaNodeLoop ctx partial =
     (if HasPrefix partial ''../devices/'' then
        (case ReadFile ctx (Join [pathSysBlock ctx, partial, ''numa_node'']) of
           ReadFailed nodeContents \<Rightarrow>
             (case Atoi nodeContents of
                (nodeInt, True) \<Rightarrow> nodeInt
              | (nodeInt, False) \<Rightarrow> numaNodeLoop ctx (Base partial))
         | Contents nodeContents \<Rightarrow> numaNodeLoop ctx (Base partial))
      else - 1)"
  by pat_completeness auto
termination
  by (relation "measure (\<lambda>(ctx, partial). if HasPrefix partial ''../devices/'' then 1 else 0)")
    (simp_all add: Base_not_devices)

declare numaNodeLoop.simps [simp del]

definition diskNUMANodeID :: "host \<Rightarrow> string \<Rightarrow> int" where
  "diskNUMANodeID ctx disk =
     (case Readlink ctx (Join [pathSysBlock ctx, disk]) of
        None \<Rightarrow> - 1
      | Some link \<Rightarrow> numaNodeLoop ctx link)"

definition diskVendor :: "host \<Rightarrow> string \<Rightarrow> string" where
  "diskVendor ctx disk =
     (case ReadFile ctx (Join [pathSysBlock ctx, disk, ''device'', ''vendor'']) of
        ReadFailed _ \<Rightarrow> UNKNOWN
      | Contents contents \<Rightarrow> TrimSpace contents)"

definition udevEntry :: "(string \<rightharpoonup> string) \<Rightarrow> string \<Rightarrow> (string \<rightharpoonup> string)" where
  \<comment> \<open>one turn of the loop of \<open>udevInfo\<close> over the lines of the record\<close>
  "udevEntry udevInfo udevLine =
     (if HasPrefix udevLine ''E:'' then
        (case SplitN2 (drop 2 udevLine) (CHR ''='') of
           [k, v] \<Rightarrow> udevInfo(k \<mapsto> v)
         | _ \<Rightarrow> udevInfo)
      else udevInfo)"

definition udevInfo :: "host \<Rightarrow> string \<Rightarrow> (string \<rightharpoonup> string) option" where
  \<comment> \<open>\<open>None\<close> is the returned error\<close>
  "udevInfo ctx disk =
     (case ReadFile ctx (Join [pathSysBlock ctx, disk, ''dev'']) of
        ReadFailed _ \<Rightarrow> None
      | Contents devNo \<Rightarrow>
          (case ReadFile ctx (Join [pathRunUdevData ctx, ''b'' @ TrimSpace devNo]) of
             ReadFailed _ \<Rightarrow> None
           | Contents udevBytes \<Rightarrow>
               Some (foldl udevEntry Map.empty (Split udevBytes (CHR 0x0A)))))"

definition diskModel :: "host \<Rightarrow> string \<Rightarrow> string" where
  "diskModel ctx disk =
     (case udevInfo ctx disk of
        None \<Rightarrow> UNKNOWN
      | Some info \<Rightarrow> (case info ''ID_MODEL'' of Some model \<Rightarrow> model | None \<Rightarrow> UNKNOWN))"

definition diskSerialNumber :: "host \<Rightarrow> string \<Rightarrow> string" where
  "diskSerialNumber ctx disk =
     (case udevInfo ctx disk of
        None \<Rightarrow> UNKNOWN
      | Some info \<Rightarrow>
          (case info ''ID_SERIAL_SHORT'' of Some serial \<Rightarrow> serial | None \<Rightarrow> UNKNOWN))"

definition diskBusPath :: "host \<Rightarrow> string \<Rightarrow> string" where
  "diskBusPath ctx disk =
     (case udevInfo ctx disk of
        None \<Rightarrow> UNKNOWN
      | Some info \<Rightarrow> (case info ''ID_PATH'' of Some path \<Rightarrow> path | None \<Rightarrow> UNKNOWN))"

definition diskWWN :: "host \<Rightarrow> string \<Rightarrow> string" where
  "diskWWN ctx disk =
     (case udevInfo ctx disk of
        None \<Rightarrow> UNKNOWN
      | Some info \<Rightarrow>
          (case info ''ID_WWN_WITH_EXTENSION'' of
             Some wwn \<Rightarrow> wwn
           | None \<Rightarrow> (case info ''ID_WWN'' of Some wwn \<Rightarrow> wwn | None \<Rightarrow> UNKNOWN)))"

definition diskIsRemovable :: "host \<Rightarrow> string \<Rightarrow> bool" where
  "diskIsRemovable ctx disk =
     (case ReadFile ctx (Join [pathSysBlock ctx, disk, ''removable'']) of
        ReadFailed _ \<Rightarrow> False
      | Contents contents \<Rightarrow> TrimSpace contents = ''1'')"

definition diskTypes :: "string \<Rightarrow> DriveType \<times> StorageController" where
  "diskTypes dname =
     (if HasPrefix dname ''fd'' then (DRIVE_TYPE_FDD, STORAGE_CONTROLLER_UNKNOWN)
      else if HasPrefix dname ''sd'' then (DRIVE_TYPE_HDD, STORAGE_CONTROLLER_SCSI)
      else if HasPrefix dname ''hd'' then (DRIVE_TYPE_HDD, STORAGE_CONTROLLER_IDE)
      else if HasPrefix dname ''vd'' then (DRIVE_TYPE_HDD, STORAGE_CONTROLLER_VIRTIO)
      else if HasPrefix dname ''nvme'' then (DRIVE_TYPE_SSD, STORAGE_CONTROLLER_NVME)
      else if HasPrefix dname ''sr'' then (DRIVE_TYPE_ODD, STORAGE_CONTROLLER_SCSI)
      else if HasPrefix dname ''xvd'' then (DRIVE_TYPE_HDD, STORAGE_CONTROLLER_SCSI)
      else if HasPrefix dname ''mmc'' then (DRIVE_TYPE_SSD, STORAGE_CONTROLLER_MMC)
      else (DRIVE_TYPE_UNKNOWN, STORAGE_CONTROLLER_UNKNOWN))"

definition diskIsRotational :: "host \<Rightarrow> string \<Rightarrow> bool" where
  "diskIsRotational ctx devName =
     (safeIntFromFile ctx (Join [pathSysBlock ctx, devName, ''queue'', ''rotational'']) = 1)"

definition partitionSizeBytes :: "host \<Rightarrow> string \<Rightarrow> string \<Rightarrow> 64 word" where
  "partitionSizeBytes ctx disk part =
     (case ReadFile ctx (Join [pathSysBlock ctx, disk, part, ''size'']) of
        ReadFailed _ \<Rightarrow> 0
      | Contents contents \<Rightarrow>
          (case ParseUint (TrimSpace contents) of None \<Rightarrow> 0 | Some sz \<Rightarrow> sz * sectorSize))"

definition mtabOldNew :: "(string \<times> string) list" where
  \<comment> \<open>the arguments of \<open>strings.NewReplacer\<close> in \<open>parseMtabEntry\<close>, in pairs; \<open>CHR 0x5C\<close>
      is the backslash\<close>
  "mtabOldNew =
     [(CHR 0x5C # ''011'', [CHR 0x09]),
      (CHR 0x5C # ''012'', [CHR 0x0A]),
      (CHR 0x5C # ''040'', [CHR 0x20]),
      ([CHR 0x5C, CHR 0x5C], [CHR 0x5C])]"

definition parseMtabEntry :: "string \<Rightarrow> panic + mtabEntry option" where
  \<comment> \<open>\<open>Inr None\<close> is the nil entry. \<open>line[0]\<close> is read before anything else, and
      panics on the empty line.\<close>
  "parseMtabEntry line =
     (if line = [] then Inl IndexOutOfRange
      else if hd line \<noteq> CHR ''/'' then Inr None
      else
        let fields = Fields line
        in if length fields < 4 then Inr None
           else Inr (Some \<lparr>Partition = fields ! 0,
                            Mountpoint = Replace mtabOldNew (fields ! 1),
                            FilesystemType = fields ! 2,
                            Options = Split (fields ! 3) (CHR '','')\<rparr>))"

fun optionsReadOnly :: "string list \<Rightarrow> bool" where
  \<comment> \<open>the value of \<open>ro\<close> after the loop over \<open>entry.Options\<close>\<close>
  "optionsReadOnly [] = True"
| "optionsReadOnly (opt # opts) = (if opt = ''rw'' then False else optionsReadOnly opts)"

fun scanMtab :: "string \<Rightarrow> string list \<Rightarrow> panic + string \<times> string \<times> bool" where
  \<comment> \<open>the \<open>for scanner.Scan()\<close> loop of \<open>partitionInfo\<close> over the lines the scanner hands
      out, and the return after it\<close>
  "scanMtab part [] = Inr ([], [], True)"
| "scanMtab part (line # rest) =
     (case parseMtabEntry line of
        Inl p \<Rightarrow> Inl p
      | Inr None \<Rightarrow> scanMtab part rest
      | Inr (Some entry) \<Rightarrow>
          if Partition entry \<noteq> part then scanMtab part rest
          else Inr (Mountpoint entry, FilesystemType entry, optionsReadOnly (Options entry)))"

definition devPath :: "string \<Rightarrow> string" where
  \<comment> \<open>the first statement of \<open>partitionInfo\<close>: the partition name made a path\<close>
  "devPath part = (if \<not> HasPrefix part ''/dev'' then ''/dev/'' @ part else part)"

definition partitionInfo :: "host \<Rightarrow> string \<Rightarrow> panic + string \<times> string \<times> bool" where
  "partitionInfo ctx part =
     (case Open ctx (pathEtcMtab ctx) of
        None \<Rightarrow> Inr ([], [], True)
      | Some r \<Rightarrow> scanMtab (devPath part) (scanLines r))"

fun partitionsLoop ::
  "host \<Rightarrow> string \<Rightarrow> Partition list \<Rightarrow> string list \<Rightarrow> panic + Partition list" where
  \<comment> \<open>the loop of \<open>diskPartitions\<close> over the listed names; \<open>out\<close> is the slice so far\<close>
  "partitionsLoop ctx disk out [] = Inr out"
| "partitionsLoop ctx disk out (fname # files) =
     (if \<not> HasPrefix fname disk then partitionsLoop ctx disk out files
      else
        (case partitionInfo ctx fname of
           Inl p \<Rightarrow> Inl p
         | Inr (mp, pt, ro) \<Rightarrow>
             partitionsLoop ctx disk
               (out @ [\<lparr>pDisk = None, pName = fname,
                        pSizeBytes = partitionSizeBytes ctx disk fname,
                        pMountPoint = mp, pType = pt, pIsReadOnly = ro\<rparr>])
               files))"

definition diskPartitions :: "host \<Rightarrow> string \<Rightarrow> panic + Partition list" where
  "diskPartitions ctx disk =
     (case ReadDir ctx (Join [pathSysBlock ctx, disk]) of
        None \<Rightarrow> Inr []
      | Some files \<Rightarrow> partitionsLoop ctx disk [] files)"

definition newDisk :: "host \<Rightarrow> string \<Rightarrow> Disk" where
  \<comment> \<open>the \<open>Disk\<close> literal of the loop of \<open>disks\<close>, before its partitions are attached;
      the drive type from the name gives way to SSD when the device is not rotational\<close>
  "newDisk ctx dname =
     \<lparr>Name = dname,
      SizeBytes = diskSizeBytes ctx dname,
      PhysicalBlockSizeBytes = diskPhysicalBlockSizeBytes ctx dname,
      DriveType = (if \<not> diskIsRotational ctx dname then DRIVE_TYPE_SSD else fst (diskTypes dname)),
      IsRemovable = diskIsRemovable ctx dname,
      StorageController = snd (diskTypes dname),
      BusPath = diskBusPath ctx dname,
      NUMANodeID = diskNUMANodeID ctx dname,
      Vendor = diskVendor ctx dname,
      Model = diskModel ctx dname,
      SerialNumber = diskSerialNumber ctx dname,
      WWN = diskWWN ctx dname,
      Partitions = []\<rparr>"

fun disksLoop :: "host \<Rightarrow> Disk list \<Rightarrow> string list \<Rightarrow> panic + Disk list" where
  \<comment> \<open>the loop of \<open>disks\<close> over the listed names; \<open>disks\<close> is the slice so far\<close>
  "disksLoop ctx disks [] = Inr disks"
| "disksLoop ctx disks (dname # files) =
     (if HasPrefix dname ''loop'' then disksLoop ctx disks files
      else
        (case diskPartitions ctx dname of
           Inl p \<Rightarrow> Inl p
         | Inr parts \<Rightarrow>
             disksLoop ctx
               (disks @ [(newDisk ctx dname)
                          \<lparr>Partitions := map (\<lambda>part. part\<lparr>pDisk := Some dname\<rparr>) parts\<rparr>])
               files))"

definition disks :: "host \<Rightarrow> panic + Disk list" where
  \<comment> \<open>the nil slice returned when the listing fails is the empty list\<close>
  "disks ctx =
     (case ReadDir ctx (pathSysBlock ctx) of
        None \<Rightarrow> Inr []
      | Some files \<Rightarrow> disksLoop ctx [] files)"

definition blockFillInfo :: "host \<Rightarrow> BlockInfo \<Rightarrow> panic + BlockInfo" where
  \<comment> \<open>the \<open>info\<close> the function leaves behind; the \<open>uint64\<close> sum wraps around\<close>
  "blockFillInfo ctx info =
     (case disks ctx of
        Inl p \<Rightarrow> Inl p
      | Inr ds \<Rightarrow>
          Inr (info\<lparr>Disks := ds,
                    TotalPhysicalBytes := foldl (\<lambda>tpb d. tpb + SizeBytes d) 0 ds\<rparr>))"

section \<open>The specification's own notions\<close>

text \<open>
  The classifier as the specification words it: a table of prefix rules in a fixed
  order, the first rule whose prefix starts the name decides, and no rule gives
  (Unknown, Unknown).
\<close>

definition prefixRules :: "(string \<times> DriveType \<times> StorageController) list" where
  "prefixRules =
     [(''fd'', DRIVE_TYPE_FDD, STORAGE_CONTROLLER_UNKNOWN),
      (''sd'', DRIVE_TYPE_HDD, STORAGE_CONTROLLER_SCSI),
      (''hd'', DRIVE_TYPE_HDD, STORAGE_CONTROLLER_IDE),
      (''vd'', DRIVE_TYPE_HDD, STORAGE_CONTROLLER_VIRTIO),
      (''nvme'', DRIVE_TYPE_SSD, STORAGE_CONTROLLER_NVME),
      (''sr'', DRIVE_TYPE_ODD, STORAGE_CONTROLLER_SCSI),
      (''xvd'', DRIVE_TYPE_HDD, STORAGE_CONTROLLER_SCSI),
      (''mmc'', DRIVE_TYPE_SSD, STORAGE_CONTROLLER_MMC)]"

fun classify ::
  "(string \<times> DriveType \<times> StorageController) list \<Rightarrow> string
     \<Rightarrow> DriveType \<times> StorageController" where
  "classify [] name = (DRIVE_TYPE_UNKNOWN, STORAGE_CONTROLLER_UNKNOWN)"
| "classify ((p, r) # rules) name = (if HasPrefix name p then r else classify rules name)"

text \<open>
  The decoding of the mount point as the specification words it: one pass from the
  left; at each position one of the four escapes is replaced by its character and
  skipped whole, or the byte is copied; what has been written is not read again. The
  escape of the backslash is two backslashes.
\<close>

fun decodeEscapes :: "string \<Rightarrow> string" where
  "decodeEscapes [] = []"
| "decodeEscapes (c # cs) =
     (if HasPrefix (c # cs) (CHR 0x5C # ''011'') then CHR 0x09 # decodeEscapes (drop 4 (c # cs))
      else if HasPrefix (c # cs) (CHR 0x5C # ''012'') then CHR 0x0A # decodeEscapes (drop 4 (c # cs))
      else if HasPrefix (c # cs) (CHR 0x5C # ''040'') then CHR 0x20 # decodeEscapes (drop 4 (c # cs))
      else if HasPrefix (c # cs) [CHR 0x5C, CHR 0x5C] then CHR 0x5C # decodeEscapes (drop 2 (c # cs))
      else c # decodeEscapes cs)"

text \<open>
  The value of a key of the device's properties record: \<open>None\<close> when the key is
  absent or the record cannot be loaded.
\<close>

definition propertyOf :: "host \<Rightarrow> string \<Rightarrow> string \<Rightarrow> string option" where
  "propertyOf ctx disk k = (case udevInfo ctx disk of None \<Rightarrow> None | Some info \<Rightarrow> info k)"

text \<open>The serial number as the specification derives it, with \<open>ID_SERIAL\<close> as fallback.\<close>

definition serialWithFallback :: "host \<Rightarrow> string \<Rightarrow> string" where
  "serialWithFallback ctx disk =
     (case propertyOf ctx disk ''ID_SERIAL_SHORT'' of
        Some v \<Rightarrow> v
      | None \<Rightarrow> (case propertyOf ctx disk ''ID_SERIAL'' of Some v \<Rightarrow> v | None \<Rightarrow> UNKNOWN))"

text \<open>
  The first entry of the mount table for a device path, among the lines in file
  order that parse to an entry.
\<close>

fun firstEntryFor :: "string \<Rightarrow> string list \<Rightarrow> mtabEntry option" where
  "firstEntryFor part [] = None"
| "firstEntryFor part (line # rest) =
     (case parseMtabEntry line of
        Inr (Some entry) \<Rightarrow> if Partition entry = part then Some entry else firstEntryFor part rest
      | _ \<Rightarrow> firstEntryFor part rest)"

text \<open>The lines are all read, and no entry among them is for the device path.\<close>

fun noEntryFor :: "string \<Rightarrow> string list \<Rightarrow> bool" where
  "noEntryFor part [] = True"
| "noEntryFor part (line # rest) =
     (case parseMtabEntry line of
        Inl _ \<Rightarrow> False
      | Inr None \<Rightarrow> noEntryFor part rest
      | Inr (Some entry) \<Rightarrow> Partition entry \<noteq> part \<and> noEntryFor part rest)"

text \<open>The exact sum of the sizes of a list of disks, as a number.\<close>

definition exactSum :: "Disk list \<Rightarrow> int" where
  "exactSum ds = sum_list (map (\<lambda>d. uint (SizeBytes d)) ds)"

text \<open>
  A size attribute that gives no size: it cannot be read, or what it holds, white
  space at its ends apart, is not a decimal number.
\<close>

definition numeric :: "string \<Rightarrow> bool" where
  "numeric s = (s \<noteq> [] \<and> list_all isDigit s)"

definition sizeUnusable :: "fileread \<Rightarrow> bool" where
  "sizeUnusable r = (case r of ReadFailed _ \<Rightarrow> True | Contents contents \<Rightarrow> \<not> numeric (TrimSpace contents))"

section \<open>Example inputs\<close>

definition mtabLineSpaces :: string where
  \<comment> \<open>the line \<open>/dev/sda8 /home/Name\040with\040spaces ext4 ro 0 0\<close>\<close>
  "mtabLineSpaces =
     ''/dev/sda8 /home/Name'' @ CHR 0x5C # ''040with'' @ CHR 0x5C # ''040spaces ext4 ro 0 0''"

definition hostOf ::
  "(string \<times> string) list \<Rightarrow> (string \<times> string list) list \<Rightarrow> (string \<times> string) list
     \<Rightarrow> string option \<Rightarrow> host" where
  \<comment> \<open>a host from its readable files, its listable directories, its symbolic links and
      the bytes of its mount table; everything else fails\<close>
  "hostOf files dirs links mtab =
     \<lparr>pathSysBlock = ''/sys/block'',
      pathRunUdevData = ''/run/udev/data'',
      pathEtcMtab = ''/etc/mtab'',
      Readlink = map_of links,
      ReadFile = (\<lambda>p. case map_of files p of Some c \<Rightarrow> Contents c | None \<Rightarrow> ReadFailed []),
      ReadDir = map_of dirs,
      Open = (\<lambda>p. if p = ''/etc/mtab'' then mtab else None),
      safeIntFromFile =
        (\<lambda>p. case map_of files p of
               Some c \<Rightarrow> (case Atoi (TrimSpace c) of (n, False) \<Rightarrow> n | (n, True) \<Rightarrow> - 1)
             | None \<Rightarrow> - 1)\<rparr>"

definition exampleFiles :: "(string \<times> string) list" where
  "exampleFiles =
     [(''/sys/block/sda/size'', ''1024'' @ [CHR 0x0A]),
      (''/sys/block/sda/queue/physical_block_size'', ''4096'' @ [CHR 0x0A]),
      (''/sys/block/sda/queue/rotational'', ''1'' @ [CHR 0x0A]),
      (''/sys/block/sda/removable'', ''0'' @ [CHR 0x0A]),
      (''/sys/block/sda/device/vendor'', ''ATA     '' @ [CHR 0x0A]),
      (''/sys/block/sda/dev'', ''8:0'' @ [CHR 0x0A]),
      (''/run/udev/data/b8:0'',
       ''E:ID_MODEL=ST1000'' @ [CHR 0x0A] @ ''E:ID_SERIAL_SHORT=Z1D'' @ [CHR 0x0A]
         @ ''E:ID_SERIAL=ST1000_Z1D'' @ [CHR 0x0A]),
      (''/sys/block/sda/sda1/size'', ''512'' @ [CHR 0x0A]),
      (''/sys/block/sda/sda2/size'', ''n/a'' @ [CHR 0x0A]),
      (''/sys/block/sdb/device/vendor'', ''QEMU'' @ [CHR 0x0A])]"

definition exampleMtab :: string where
  "exampleMtab =
     ''/dev/sda1 / ext4 rw,relatime 0 0'' @ [CHR 0x0A] @ ''/dev/sda2 /home ext4 ro 0 0'' @ [CHR 0x0A]"

definition exampleHost :: host where
  \<comment> \<open>a loop device, a disk \<open>sda\<close> of 1024 sectors with two partitions (the second with a
      size that is no number), and a disk \<open>sdb\<close> with no size attribute\<close>
  "exampleHost =
     hostOf exampleFiles
       [(''/sys/block'', [''loop0'', ''sda'', ''sdb'']),
        (''/sys/block/sda'', [''queue'', ''sda1'', ''sda2'', ''size''])]
       [(''/sys/block/sda'', ''../devices/pci0000:00/block/sda'')]
       (Some exampleMtab)"

definition hostNoRoot :: host where
  \<comment> \<open>the files and directories of \<open>exampleHost\<close>, but the root of the device tree cannot
      be listed and the mount table cannot be opened\<close>
  "hostNoRoot =
     hostOf exampleFiles [(''/sys/block/sda'', [''queue'', ''sda1'', ''sda2'', ''size''])] [] None"

definition hostSerialOnly :: host where
  \<comment> \<open>the properties record of \<open>sda\<close> has \<open>ID_SERIAL\<close> and no \<open>ID_SERIAL_SHORT\<close>\<close>
  "hostSerialOnly =
     hostOf
       [(''/sys/block/sda/dev'', ''8:0'' @ [CHR 0x0A]),
        (''/run/udev/data/b8:0'',
         ''E:ID_SERIAL=ST1000_Z1D'' @ [CHR 0x0A] @ ''E:ID_MODEL=ST1000'' @ [CHR 0x0A])]
       [] [] None"

definition hostNuma :: host where
  \<comment> \<open>\<open>/sys/block/sda\<close> links into the devices subtree, and the \<open>numa_node\<close> attribute
      read first holds 1\<close>
  "hostNuma =
     hostOf [(''/sys/devices/pci0000:00/block/sda/numa_node'', ''1'')] []
       [(''/sys/block/sda'', ''../devices/pci0000:00/block/sda'')] None"

definition hostNoNuma :: host where
  \<comment> \<open>the same link, and no \<open>numa_node\<close> attribute anywhere\<close>
  "hostNoNuma = hostOf [] [] [(''/sys/block/sda'', ''../devices/pci0000:00/block/sda'')] None"

definition hostBlankLine :: host where
  \<comment> \<open>a mount table of one entry followed by a blank line\<close>
  "hostBlankLine =
     hostOf [] [] [] (Some (''/dev/sda1 / ext4 rw,relatime 0 0'' @ [CHR 0x0A, CHR 0x0A]))"

definition hostHugeDisks :: host where
  \<comment> \<open>two disks of \<open>2 ^ 54\<close> sectors each\<close>
  "hostHugeDisks =
     hostOf
       [(''/sys/block/sda/size'', ''18014398509481984'' @ [CHR 0x0A]),
        (''/sys/block/sdb/size'', ''18014398509481984'' @ [CHR 0x0A])]
       [(''/sys/block'', [''sda'', ''sdb''])] [] None"

definition emptyInfo :: BlockInfo where
  "emptyInfo = \<lparr>TotalPhysicalBytes = 0, Disks = []\<rparr>"

definition exampleSnapshot :: BlockInfo where
  \<comment> \<open>what \<open>blockFillInfo\<close> leaves in \<open>emptyInfo\<close> on \<open>exampleHost\<close>\<close>
  "exampleSnapshot =
     (case blockFillInfo exampleHost emptyInfo of Inr snapshot \<Rightarrow> snapshot | Inl _ \<Rightarrow> emptyInfo)"

definition hugeSnapshot :: BlockInfo where
  \<comment> \<open>what \<open>blockFillInfo\<close> leaves in \<open>emptyInfo\<close> on \<open>hostHugeDisks\<close>\<close>
  "hugeSnapshot =
     (case blockFillInfo hostHugeDisks emptyInfo of Inr snapshot \<Rightarrow> snapshot | Inl _ \<Rightarrow> emptyInfo)"

section \<open>The classifier\<close>

text \<open>
  Claim C6. \<open>diskTypes\<close> is a total function of the device name alone, and its result is
  the one of the first rule, in the order fd, sd, hd, vd, nvme, sr, xvd, mmc, whose
  prefix starts the name; a name that no prefix starts is (Unknown, Unknown).
\<close>

theorem diskTypes_first_matching_prefix: "diskTypes dname = classify prefixRules dname"
  by (simp add: diskTypes_def prefixRules_def)

lemma diskTypes_examples:
  "diskTypes ''sda6'' = (DRIVE_TYPE_HDD, STORAGE_CONTROLLER_SCSI)"
  "diskTypes ''nvme0n1'' = (DRIVE_TYPE_SSD, STORAGE_CONTROLLER_NVME)"
  "diskTypes ''vda1'' = (DRIVE_TYPE_HDD, STORAGE_CONTROLLER_VIRTIO)"
  "diskTypes ''xvda1'' = (DRIVE_TYPE_HDD, STORAGE_CONTROLLER_SCSI)"
  "diskTypes ''fda1'' = (DRIVE_TYPE_FDD, STORAGE_CONTROLLER_UNKNOWN)"
  "diskTypes ''sr0'' = (DRIVE_TYPE_ODD, STORAGE_CONTROLLER_SCSI)"
  "diskTypes ''mmcblk0'' = (DRIVE_TYPE_SSD, STORAGE_CONTROLLER_MMC)"
  "diskTypes ''anything-else'' = (DRIVE_TYPE_UNKNOWN, STORAGE_CONTROLLER_UNKNOWN)"
  by (simp_all add: diskTypes_def HasPrefix_def)

section \<open>The mount-table line parser\<close>

lemma lookup_mtab:
  "lookup mtabOldNew s =
     (if HasPrefix s (CHR 0x5C # ''011'') then Some (CHR 0x5C # ''011'', [CHR 0x09])
      else if HasPrefix s (CHR 0x5C # ''012'') then Some (CHR 0x5C # ''012'', [CHR 0x0A])
      else if HasPrefix s (CHR 0x5C # ''040'') then Some (CHR 0x5C # ''040'', [CHR 0x20])
      else if HasPrefix s [CHR 0x5C, CHR 0x5C] then Some ([CHR 0x5C, CHR 0x5C], [CHR 0x5C])
      else None)"
  by (simp add: mtabOldNew_def)

lemma Replace_mtab_decode: "Replace mtabOldNew s = decodeEscapes s"
proof (induction s rule: decodeEscapes.induct)
  case 1
  show ?case by simp
next
  case (2 c cs)
  then show ?case by (simp add: lookup_mtab eval_nat_numeral)
qed

text \<open>A decoded backslash is not read again as the start of an escape.\<close>

lemma decodeEscapes_no_rescan:
  "decodeEscapes ([CHR 0x5C, CHR 0x5C] @ ''040'') = CHR 0x5C # ''040''"
  by code_simp

text \<open>
  Claim C3. A line that begins with a slash and has at least four white-space
  separated fields parses to an entry whose mount point is the second field decoded in
  one pass by the four substitutions.
\<close>

theorem parseMtabEntry_mountpoint:
  assumes "HasPrefix line ''/''" and "4 \<le> length (Fields line)"
  shows "\<exists>entry. parseMtabEntry line = Inr (Some entry)
           \<and> Mountpoint entry = decodeEscapes (Fields line ! 1)"
  using assms
  by (cases line) (auto simp: parseMtabEntry_def HasPrefix_def Let_def Replace_mtab_decode)

theorem parseMtabEntry_mountpoint_witness:
  "HasPrefix mtabLineSpaces ''/'' \<and> 4 \<le> length (Fields mtabLineSpaces)
   \<and> (\<exists>entry. parseMtabEntry mtabLineSpaces = Inr (Some entry)
          \<and> Mountpoint entry = ''/home/Name with spaces'')"
proof -
  have h1: "HasPrefix mtabLineSpaces ''/''" by code_simp
  have h2: "4 \<le> length (Fields mtabLineSpaces)" by code_simp
  have v: "decodeEscapes (Fields mtabLineSpaces ! 1) = ''/home/Name with spaces''"
    by code_simp
  show ?thesis using h1 h2 parseMtabEntry_mountpoint [OF h1 h2] by (simp only: v)
qed

lemma parseMtabEntry_skips:
  assumes "line \<noteq> []" and "\<not> HasPrefix line ''/'' \<or> length (Fields line) < 4"
  shows "parseMtabEntry line = Inr None"
  using assms by (cases line) (auto simp: parseMtabEntry_def HasPrefix_def Let_def)

text \<open>
  Claim C4. The claim asks that \<open>parseMtabEntry\<close> returns "no entry" for every line
  that does not begin with a slash or has fewer than four fields, the empty line
  included. The code reads \<open>line[0]\<close> first: on the empty line it panics. For every
  other such line it returns nil (\<open>parseMtabEntry_skips\<close>).
\<close>

theorem parseMtabEntry_empty_line_panics: "parseMtabEntry [] = Inl IndexOutOfRange"
  by (simp add: parseMtabEntry_def)

section \<open>The mount lookup\<close>

lemma optionsReadOnly_rw: "optionsReadOnly opts = (''rw'' \<notin> set opts)"
  by (induction opts) auto

lemma parseMtabEntry_returns: "line \<noteq> [] \<Longrightarrow> \<exists>r. parseMtabEntry line = Inr r"
  by (simp add: parseMtabEntry_def Let_def)

lemma scanMtab_no_blank_line:
  assumes "[] \<notin> set lines"
  shows "scanMtab part lines =
           Inr (case firstEntryFor part lines of
                  None \<Rightarrow> ([], [], True)
                | Some entry \<Rightarrow>
                    (Mountpoint entry, FilesystemType entry, ''rw'' \<notin> set (Options entry)))"
  using assms
proof (induction lines)
  case Nil
  show ?case by simp
next
  case (Cons line rest)
  then have "line \<noteq> []" by auto
  then obtain r where r: "parseMtabEntry line = Inr r"
    using parseMtabEntry_returns by blast
  show ?case
    using Cons r by (cases r) (auto simp: optionsReadOnly_rw)
qed

text \<open>
  On a mount table with no blank line the lookup is the one the specification
  describes: the first entry for the device path decides, read-only unless its options
  have \<open>rw\<close>, and no entry gives the default.
\<close>

lemma partitionInfo_no_blank_line:
  assumes "Open ctx (pathEtcMtab ctx) = Some r" and "[] \<notin> set (scanLines r)"
  shows "partitionInfo ctx part =
           Inr (case firstEntryFor (devPath part) (scanLines r) of
                  None \<Rightarrow> ([], [], True)
                | Some entry \<Rightarrow>
                    (Mountpoint entry, FilesystemType entry, ''rw'' \<notin> set (Options entry)))"
  using assms by (simp add: partitionInfo_def scanMtab_no_blank_line)

text \<open>
  Claim C5. The claim asks that the lookup returns the default result, and no error,
  when no entry is for the partition. The mount table of \<open>hostBlankLine\<close> has an entry
  for \<open>/dev/sda1\<close> and then a blank line; the lookup of \<open>sdb1\<close>, for which there is no
  entry, reaches the blank line and panics in \<open>parseMtabEntry\<close>.
\<close>

theorem partitionInfo_blank_line_panics:
  "partitionInfo hostBlankLine ''sdb1'' = Inl IndexOutOfRange"
  by code_simp

lemma scanMtab_noEntryFor: "noEntryFor part lines \<Longrightarrow> scanMtab part lines = Inr ([], [], True)"
  by (induction lines) (auto split: sum.splits option.splits)

text \<open>
  Claim C10. When the mount table cannot be opened the lookup returns the empty mount
  point, the empty filesystem type and read-only, which is also what it returns on
  every mount table it reads to the end without finding an entry for the partition.
\<close>

theorem partitionInfo_unopened_mtab:
  assumes "Open ctx (pathEtcMtab ctx) = None"
  shows "partitionInfo ctx part = Inr ([], [], True)
     \<and> (\<forall>ctx' r. Open ctx' (pathEtcMtab ctx') = Some r \<and> noEntryFor (devPath part) (scanLines r)
            \<longrightarrow> partitionInfo ctx' part = partitionInfo ctx part)"
  using assms by (auto simp: partitionInfo_def scanMtab_noEntryFor)

theorem partitionInfo_unopened_mtab_witness:
  "Open hostNoRoot (pathEtcMtab hostNoRoot) = None
   \<and> partitionInfo hostNoRoot ''sdb1'' = Inr ([], [], True)
   \<and> Open exampleHost (pathEtcMtab exampleHost) = Some exampleMtab
   \<and> noEntryFor (devPath ''sdb1'') (scanLines exampleMtab)
   \<and> partitionInfo exampleHost ''sdb1'' = partitionInfo hostNoRoot ''sdb1''"
proof -
  have h: "Open hostNoRoot (pathEtcMtab hostNoRoot) = None" by code_simp
  have o: "Open exampleHost (pathEtcMtab exampleHost) = Some exampleMtab" by code_simp
  have n: "noEntryFor (devPath ''sdb1'') (scanLines exampleMtab)" by code_simp
  from partitionInfo_unopened_mtab [OF h, of "''sdb1''"] o n
  have "partitionInfo hostNoRoot ''sdb1'' = Inr ([], [], True)"
    and "partitionInfo exampleHost ''sdb1'' = partitionInfo hostNoRoot ''sdb1''"
    by blast+
  with h o n show ?thesis by blast
qed

section \<open>The properties record\<close>

text \<open>
  Claim C2, as amended. The serial number is the value of \<open>ID_SERIAL_SHORT\<close> when the
  properties record has that key, and the unknown sentinel otherwise, also when the
  record has \<open>ID_SERIAL\<close>: the code looks at the short key only.
\<close>

theorem diskSerialNumber_short_only:
  "diskSerialNumber ctx disk =
     (case propertyOf ctx disk ''ID_SERIAL_SHORT'' of Some serial \<Rightarrow> serial | None \<Rightarrow> UNKNOWN)"
  by (simp add: diskSerialNumber_def propertyOf_def split: option.splits)

text \<open>
  The claim as stated fails on \<open>hostSerialOnly\<close>: the record has \<open>ID_SERIAL\<close> and no
  \<open>ID_SERIAL_SHORT\<close>, and the serial number is the unknown sentinel.
\<close>

theorem diskSerialNumber_no_fallback:
  "propertyOf hostSerialOnly ''sda'' ''ID_SERIAL_SHORT'' = None
   \<and> propertyOf hostSerialOnly ''sda'' ''ID_SERIAL'' = Some ''ST1000_Z1D''
   \<and> diskSerialNumber hostSerialOnly ''sda'' = ''unknown''
   \<and> diskSerialNumber hostSerialOnly ''sda'' \<noteq> serialWithFallback hostSerialOnly ''sda''"
  by code_simp

section \<open>The NUMA node\<close>

text \<open>
  What the loop of \<open>diskNUMANodeID\<close> computes: \<open>filepath.Base\<close> never gives a path into
  the devices subtree, so the loop body runs at most once; a \<open>numa_node\<close> attribute
  that was read is never parsed, and the only number returned besides -1 is the one
  \<open>Atoi\<close> returns with an error.
\<close>

lemma numaNodeLoop_once:
  "numaNodeLoop ctx partial =
     (if HasPrefix partial ''../devices/'' then
        (case ReadFile ctx (Join [pathSysBlock ctx, partial, ''numa_node'']) of
           ReadFailed nodeContents \<Rightarrow>
             (case Atoi nodeContents of (nodeInt, True) \<Rightarrow> nodeInt | (nodeInt, False) \<Rightarrow> - 1)
         | Contents nodeContents \<Rightarrow> - 1)
      else - 1)"
proof -
  have b: "numaNodeLoop ctx (Base partial) = - 1"
    by (subst numaNodeLoop.simps) (simp add: Base_not_devices)
  show ?thesis
    by (subst numaNodeLoop.simps) (simp add: b split: fileread.splits prod.splits bool.splits)
qed

lemma diskNUMANodeID_readable:
  assumes "Readlink ctx (Join [pathSysBlock ctx, disk]) = Some link"
    and "ReadFile ctx (Join [pathSysBlock ctx, link, ''numa_node'']) = Contents nodeContents"
  shows "diskNUMANodeID ctx disk = - 1"
  using assms by (simp add: diskNUMANodeID_def numaNodeLoop_once)

text \<open>
  Claim C1. The claim asks for the first parsed integer of a \<open>numa_node\<close> attribute,
  and -1 when there is none to use. On \<open>hostNuma\<close> the attribute is read and holds 1,
  and the code returns -1; on \<open>hostNoNuma\<close> the attribute cannot be read, and the code
  returns 0.
\<close>

theorem diskNUMANodeID_inverted:
  "Readlink hostNuma (Join [pathSysBlock hostNuma, ''sda'']) = Some ''../devices/pci0000:00/block/sda''
   \<and> ReadFile hostNuma
        (Join [pathSysBlock hostNuma, ''../devices/pci0000:00/block/sda'', ''numa_node''])
       = Contents ''1''
   \<and> diskNUMANodeID hostNuma ''sda'' = - 1
   \<and> diskNUMANodeID hostNoNuma ''sda'' = 0"
  by code_simp

section \<open>Device enumeration and the snapshot\<close>

lemma partitionsLoop_invariant:
  assumes "partitionsLoop ctx disk out files = Inr ps"
    and "\<forall>p\<in>set out. P p"
    and "\<And>fname mp pt ro. partitionInfo ctx fname = Inr (mp, pt, ro) \<Longrightarrow>
           P \<lparr>pDisk = None, pName = fname, pSizeBytes = partitionSizeBytes ctx disk fname,
              pMountPoint = mp, pType = pt, pIsReadOnly = ro\<rparr>"
  shows "\<forall>p\<in>set ps. P p"
  using assms(1,2)
proof (induction files arbitrary: out)
  case Nil
  then show ?case by simp
next
  case (Cons fname files)
  show ?case
  proof (cases "HasPrefix fname disk")
    case False
    with Cons show ?thesis by simp
  next
    case True
    with Cons.prems(1) obtain mp pt ro where
      i: "partitionInfo ctx fname = Inr (mp, pt, ro)"
      by (cases "partitionInfo ctx fname") auto
    let ?p = "\<lparr>pDisk = None, pName = fname, pSizeBytes = partitionSizeBytes ctx disk fname,
               pMountPoint = mp, pType = pt, pIsReadOnly = ro\<rparr>"
    from Cons.prems(1) True i
    have "partitionsLoop ctx disk (out @ [?p]) files = Inr ps" by simp
    moreover have "\<forall>p\<in>set (out @ [?p]). P p" using Cons.prems(2) assms(3) [OF i] by simp
    ultimately show ?thesis by (rule Cons.IH)
  qed
qed

lemma partitionsLoop_names:
  "partitionsLoop ctx disk out files = Inr ps \<Longrightarrow>
     map pName ps = map pName out @ filter (\<lambda>fname. HasPrefix fname disk) files"
proof (induction files arbitrary: out)
  case Nil
  then show ?case by simp
next
  case (Cons fname files)
  show ?case
  proof (cases "HasPrefix fname disk")
    case False
    with Cons show ?thesis by simp
  next
    case True
    with Cons.prems obtain mp pt ro where
      i: "partitionInfo ctx fname = Inr (mp, pt, ro)"
      by (cases "partitionInfo ctx fname") auto
    from Cons.prems True i Cons.IH show ?thesis by simp
  qed
qed

lemma diskPartitions_sizes:
  assumes "diskPartitions ctx disk = Inr ps"
  shows "\<forall>p\<in>set ps. pSizeBytes p = partitionSizeBytes ctx disk (pName p)"
proof (cases "ReadDir ctx (Join [pathSysBlock ctx, disk])")
  case None
  with assms show ?thesis by (simp add: diskPartitions_def)
next
  case (Some files)
  with assms have "partitionsLoop ctx disk [] files = Inr ps" by (simp add: diskPartitions_def)
  then show ?thesis by (rule partitionsLoop_invariant) simp_all
qed

lemma diskPartitions_fields:
  assumes "diskPartitions ctx disk = Inr ps"
  shows "\<forall>p\<in>set ps. partitionInfo ctx (pName p) = Inr (pMountPoint p, pType p, pIsReadOnly p)"
proof (cases "ReadDir ctx (Join [pathSysBlock ctx, disk])")
  case None
  with assms show ?thesis by (simp add: diskPartitions_def)
next
  case (Some files)
  with assms have "partitionsLoop ctx disk [] files = Inr ps" by (simp add: diskPartitions_def)
  then show ?thesis by (rule partitionsLoop_invariant) simp_all
qed

lemma diskPartitions_names:
  assumes "diskPartitions ctx disk = Inr ps"
    and "ReadDir ctx (Join [pathSysBlock ctx, disk]) = Some files"
  shows "map pName ps = filter (\<lambda>fname. HasPrefix fname disk) files"
  using assms partitionsLoop_names [of ctx disk "[]" files ps] by (simp add: diskPartitions_def)

lemma disksLoop_invariant:
  assumes "disksLoop ctx acc files = Inr ds"
    and "\<forall>d\<in>set acc. P d"
    and "\<And>dname parts. \<not> HasPrefix dname ''loop'' \<Longrightarrow> diskPartitions ctx dname = Inr parts \<Longrightarrow>
           P ((newDisk ctx dname)\<lparr>Partitions := map (\<lambda>part. part\<lparr>pDisk := Some dname\<rparr>) parts\<rparr>)"
  shows "\<forall>d\<in>set ds. P d"
  using assms(1,2)
proof (induction files arbitrary: acc)
  case Nil
  then show ?case by simp
next
  case (Cons dname files)
  show ?case
  proof (cases "HasPrefix dname ''loop''")
    case True
    with Cons show ?thesis by simp
  next
    case False
    with Cons.prems(1) obtain parts where
      p: "diskPartitions ctx dname = Inr parts"
      by (cases "diskPartitions ctx dname") auto
    let ?d = "(newDisk ctx dname)\<lparr>Partitions := map (\<lambda>part. part\<lparr>pDisk := Some dname\<rparr>) parts\<rparr>"
    from Cons.prems(1) False p
    have "disksLoop ctx (acc @ [?d]) files = Inr ds" by simp
    moreover have "\<forall>d\<in>set (acc @ [?d]). P d"
      using Cons.prems(2) assms(3) [OF False p] by simp
    ultimately show ?thesis by (rule Cons.IH)
  qed
qed

lemma disksLoop_names:
  "disksLoop ctx acc files = Inr ds \<Longrightarrow>
     map Name ds = map Name acc @ filter (\<lambda>dname. \<not> HasPrefix dname ''loop'') files"
proof (induction files arbitrary: acc)
  case Nil
  then show ?case by simp
next
  case (Cons dname files)
  show ?case
  proof (cases "HasPrefix dname ''loop''")
    case True
    with Cons show ?thesis by simp
  next
    case False
    with Cons.prems obtain parts where
      p: "diskPartitions ctx dname = Inr parts"
      by (cases "diskPartitions ctx dname") auto
    from Cons.prems False p Cons.IH show ?thesis by (simp add: newDisk_def)
  qed
qed

lemma disks_names:
  assumes "disks ctx = Inr ds" and "ReadDir ctx (pathSysBlock ctx) = Some files"
  shows "map Name ds = filter (\<lambda>dname. \<not> HasPrefix dname ''loop'') files"
  using assms disksLoop_names [of ctx "[]" files ds] by (simp add: disks_def)

lemma disks_invariant:
  assumes "disks ctx = Inr ds"
    and "\<And>dname parts. \<not> HasPrefix dname ''loop'' \<Longrightarrow> diskPartitions ctx dname = Inr parts \<Longrightarrow>
           P ((newDisk ctx dname)\<lparr>Partitions := map (\<lambda>part. part\<lparr>pDisk := Some dname\<rparr>) parts\<rparr>)"
  shows "\<forall>d\<in>set ds. P d"
proof (cases "ReadDir ctx (pathSysBlock ctx)")
  case None
  with assms(1) show ?thesis by (simp add: disks_def)
next
  case (Some files)
  with assms(1) have "disksLoop ctx [] files = Inr ds" by (simp add: disks_def)
  then show ?thesis by (rule disksLoop_invariant) (simp, blast intro: assms(2))
qed

text \<open>
  Claim C8. When the root of the device tree cannot be listed, \<open>disks\<close> returns no
  device, whatever the device directories hold; and no device it returns has a name
  that begins with \<open>loop\<close>.
\<close>

theorem disks_no_loop_devices:
  "(ReadDir ctx (pathSysBlock ctx) = None \<longrightarrow> disks ctx = Inr [])
   \<and> (\<forall>ds. disks ctx = Inr ds \<longrightarrow> (\<forall>d\<in>set ds. \<not> HasPrefix (Name d) ''loop''))"
proof (intro conjI allI impI)
  assume "ReadDir ctx (pathSysBlock ctx) = None"
  then show "disks ctx = Inr []" by (simp add: disks_def)
next
  fix ds
  assume "disks ctx = Inr ds"
  then show "\<forall>d\<in>set ds. \<not> HasPrefix (Name d) ''loop''"
    by (rule disks_invariant) (simp add: newDisk_def)
qed

theorem disks_no_loop_devices_witness:
  "ReadDir hostNoRoot (pathSysBlock hostNoRoot) = None
   \<and> ReadDir hostNoRoot ''/sys/block/sda'' = Some [''queue'', ''sda1'', ''sda2'', ''size'']
   \<and> disks hostNoRoot = Inr []
   \<and> ReadDir exampleHost (pathSysBlock exampleHost) = Some [''loop0'', ''sda'', ''sdb'']
   \<and> disks exampleHost = Inr (Disks exampleSnapshot)
   \<and> map Name (Disks exampleSnapshot) = [''sda'', ''sdb'']
   \<and> list_all (\<lambda>d. \<not> HasPrefix (Name d) ''loop'') (Disks exampleSnapshot)"
proof -
  have n: "ReadDir hostNoRoot (pathSysBlock hostNoRoot) = None" by code_simp
  have s: "ReadDir hostNoRoot ''/sys/block/sda'' = Some [''queue'', ''sda1'', ''sda2'', ''size'']"
    by code_simp
  have l: "ReadDir exampleHost (pathSysBlock exampleHost) = Some [''loop0'', ''sda'', ''sdb'']"
    by code_simp
  have e: "disks exampleHost = Inr (Disks exampleSnapshot)" by code_simp
  have m: "map Name (Disks exampleSnapshot) = [''sda'', ''sdb'']" by code_simp
  from disks_no_loop_devices [of hostNoRoot] n have "disks hostNoRoot = Inr []" by blast
  moreover from disks_no_loop_devices [of exampleHost] e
  have "list_all (\<lambda>d. \<not> HasPrefix (Name d) ''loop'') (Disks exampleSnapshot)"
    by (simp add: list_all_iff)
  ultimately show ?thesis using n s l e m by blast
qed

section \<open>Sizes\<close>

lemma parseUintLoop_not_digits: "\<not> list_all isDigit s \<Longrightarrow> parseUintLoop n s \<noteq> Num m"
  by (induction s arbitrary: n) auto

lemma ParseUint_not_numeric: "\<not> numeric s \<Longrightarrow> ParseUint s = None"
proof (cases "s = []")
  case True
  then show ?thesis by (simp add: ParseUint_def parseUint10_def)
next
  case False
  assume "\<not> numeric s"
  with False have "\<not> list_all isDigit s" by (simp add: numeric_def)
  then have "parseUintLoop 0 s \<noteq> Num m" for m by (rule parseUintLoop_not_digits)
  with False show ?thesis
    by (cases "parseUintLoop 0 s") (auto simp: ParseUint_def parseUint10_def)
qed

lemma sector_multiple: "512 dvd uint (sz * sectorSize)"
proof -
  have "(2::int) ^ 9 dvd 2 ^ 64" by (rule le_imp_power_dvd) simp
  then have d: "(512::int) dvd 2 ^ 64" by simp
  have "uint (sz * sectorSize) = uint sz * 512 mod 2 ^ 64"
    by (simp add: sectorSize_def uint_word_ariths)
  moreover have "(512::int) dvd uint sz * 512 mod 2 ^ 64"
    using d by (simp add: dvd_mod)
  ultimately show ?thesis by simp
qed

lemma diskSizeBytes_multiple: "512 dvd uint (diskSizeBytes ctx disk)"
  by (simp add: diskSizeBytes_def sector_multiple split: fileread.splits option.splits)

lemma partitionSizeBytes_multiple: "512 dvd uint (partitionSizeBytes ctx disk part)"
  by (simp add: partitionSizeBytes_def sector_multiple split: fileread.splits option.splits)

lemma diskSizeBytes_unusable:
  "sizeUnusable (ReadFile ctx (Join [pathSysBlock ctx, disk, ''size''])) \<Longrightarrow>
     diskSizeBytes ctx disk = 0"
  by (auto simp: diskSizeBytes_def sizeUnusable_def ParseUint_not_numeric split: fileread.splits)

lemma partitionSizeBytes_unusable:
  "sizeUnusable (ReadFile ctx (Join [pathSysBlock ctx, disk, part, ''size''])) \<Longrightarrow>
     partitionSizeBytes ctx disk part = 0"
  by (auto simp: partitionSizeBytes_def sizeUnusable_def ParseUint_not_numeric
      split: fileread.splits)

lemma disks_derived:
  assumes "disks ctx = Inr ds"
  shows "\<forall>d\<in>set ds.
           d = (newDisk ctx (Name d))\<lparr>Partitions := Partitions d\<rparr>
           \<and> (\<forall>p\<in>set (Partitions d).
                 pSizeBytes p = partitionSizeBytes ctx (Name d) (pName p)
                 \<and> pDisk p = Some (Name d)
                 \<and> partitionInfo ctx (pName p) = Inr (pMountPoint p, pType p, pIsReadOnly p))
           \<and> (\<forall>files. ReadDir ctx (Join [pathSysBlock ctx, Name d]) = Some files \<longrightarrow>
                  map pName (Partitions d) = filter (\<lambda>fname. HasPrefix fname (Name d)) files)"
  using assms
proof (rule disks_invariant)
  fix dname parts
  assume p: "diskPartitions ctx dname = Inr parts"
  let ?d = "(newDisk ctx dname)\<lparr>Partitions := map (\<lambda>part. part\<lparr>pDisk := Some dname\<rparr>) parts\<rparr>"
  have n: "Name ?d = dname" by (simp add: newDisk_def)
  have "?d = (newDisk ctx (Name ?d))\<lparr>Partitions := Partitions ?d\<rparr>"
    by (simp add: newDisk_def)
  moreover have "\<forall>p\<in>set (Partitions ?d).
      pSizeBytes p = partitionSizeBytes ctx (Name ?d) (pName p)
      \<and> pDisk p = Some (Name ?d)
      \<and> partitionInfo ctx (pName p) = Inr (pMountPoint p, pType p, pIsReadOnly p)"
    using diskPartitions_sizes [OF p] diskPartitions_fields [OF p] by (simp add: n)
  moreover have "\<forall>files. ReadDir ctx (Join [pathSysBlock ctx, Name ?d]) = Some files \<longrightarrow>
      map pName (Partitions ?d) = filter (\<lambda>fname. HasPrefix fname (Name ?d)) files"
    using diskPartitions_names [OF p] by (simp add: n comp_def)
  ultimately show "?d = (newDisk ctx (Name ?d))\<lparr>Partitions := Partitions ?d\<rparr>
      \<and> (\<forall>p\<in>set (Partitions ?d).
            pSizeBytes p = partitionSizeBytes ctx (Name ?d) (pName p)
            \<and> pDisk p = Some (Name ?d)
            \<and> partitionInfo ctx (pName p) = Inr (pMountPoint p, pType p, pIsReadOnly p))
      \<and> (\<forall>files. ReadDir ctx (Join [pathSysBlock ctx, Name ?d]) = Some files \<longrightarrow>
             map pName (Partitions ?d) = filter (\<lambda>fname. HasPrefix fname (Name ?d)) files)"
    by blast
qed

text \<open>
  Every field of a disk that \<open>disks\<close> returns, but its size and its partitions, read
  off the attribute it comes from.
\<close>

lemma disks_fields:
  assumes "disks ctx = Inr ds" and "d \<in> set ds"
  shows "PhysicalBlockSizeBytes d =
           (case ReadFile ctx (Join [pathSysBlock ctx, Name d, ''queue'', ''physical_block_size'']) of
              ReadFailed _ \<Rightarrow> 0
            | Contents contents \<Rightarrow>
                (case ParseUint (TrimSpace contents) of None \<Rightarrow> 0 | Some sz \<Rightarrow> sz))"
    and "DriveType d =
           (if safeIntFromFile ctx (Join [pathSysBlock ctx, Name d, ''queue'', ''rotational'']) \<noteq> 1
            then DRIVE_TYPE_SSD else fst (diskTypes (Name d)))"
    and "StorageController d = snd (diskTypes (Name d))"
    and "IsRemovable d =
           (case ReadFile ctx (Join [pathSysBlock ctx, Name d, ''removable'']) of
              ReadFailed _ \<Rightarrow> False
            | Contents contents \<Rightarrow> TrimSpace contents = ''1'')"
    and "Vendor d =
           (case ReadFile ctx (Join [pathSysBlock ctx, Name d, ''device'', ''vendor'']) of
              ReadFailed _ \<Rightarrow> UNKNOWN
            | Contents contents \<Rightarrow> TrimSpace contents)"
    and "BusPath d =
           (case propertyOf ctx (Name d) ''ID_PATH'' of Some v \<Rightarrow> v | None \<Rightarrow> UNKNOWN)"
    and "Model d =
           (case propertyOf ctx (Name d) ''ID_MODEL'' of Some v \<Rightarrow> v | None \<Rightarrow> UNKNOWN)"
    and "SerialNumber d =
           (case propertyOf ctx (Name d) ''ID_SERIAL_SHORT'' of Some v \<Rightarrow> v | None \<Rightarrow> UNKNOWN)"
    and "WWN d =
           (case propertyOf ctx (Name d) ''ID_WWN_WITH_EXTENSION'' of
              Some v \<Rightarrow> v
            | None \<Rightarrow> (case propertyOf ctx (Name d) ''ID_WWN'' of Some v \<Rightarrow> v | None \<Rightarrow> UNKNOWN))"
    and "NUMANodeID d = diskNUMANodeID ctx (Name d)"
    and "SizeBytes d =
           (case ReadFile ctx (Join [pathSysBlock ctx, Name d, ''size'']) of
              ReadFailed _ \<Rightarrow> 0
            | Contents contents \<Rightarrow>
                (case ParseUint (TrimSpace contents) of None \<Rightarrow> 0 | Some sz \<Rightarrow> sz * 512))"
proof -
  from disks_derived [OF assms(1)] assms(2)
  have d: "d = (newDisk ctx (Name d))\<lparr>Partitions := Partitions d\<rparr>" by blast
  show "PhysicalBlockSizeBytes d =
           (case ReadFile ctx (Join [pathSysBlock ctx, Name d, ''queue'', ''physical_block_size'']) of
              ReadFailed _ \<Rightarrow> 0
            | Contents contents \<Rightarrow>
                (case ParseUint (TrimSpace contents) of None \<Rightarrow> 0 | Some sz \<Rightarrow> sz))"
    using arg_cong [OF d, of PhysicalBlockSizeBytes]
    by (simp add: newDisk_def diskPhysicalBlockSizeBytes_def)
  show "DriveType d =
           (if safeIntFromFile ctx (Join [pathSysBlock ctx, Name d, ''queue'', ''rotational'']) \<noteq> 1
            then DRIVE_TYPE_SSD else fst (diskTypes (Name d)))"
    using arg_cong [OF d, of DriveType] by (simp add: newDisk_def diskIsRotational_def)
  show "StorageController d = snd (diskTypes (Name d))"
    using arg_cong [OF d, of StorageController] by (simp add: newDisk_def)
  show "IsRemovable d =
           (case ReadFile ctx (Join [pathSysBlock ctx, Name d, ''removable'']) of
              ReadFailed _ \<Rightarrow> False
            | Contents contents \<Rightarrow> TrimSpace contents = ''1'')"
    using arg_cong [OF d, of IsRemovable] by (simp add: newDisk_def diskIsRemovable_def)
  show "Vendor d =
           (case ReadFile ctx (Join [pathSysBlock ctx, Name d, ''device'', ''vendor'']) of
              ReadFailed _ \<Rightarrow> UNKNOWN
            | Contents contents \<Rightarrow> TrimSpace contents)"
    using arg_cong [OF d, of Vendor] by (simp add: newDisk_def diskVendor_def)
  show "BusPath d =
           (case propertyOf ctx (Name d) ''ID_PATH'' of Some v \<Rightarrow> v | None \<Rightarrow> UNKNOWN)"
    using arg_cong [OF d, of BusPath]
    by (simp add: newDisk_def diskBusPath_def propertyOf_def split: option.splits)
  show "Model d =
           (case propertyOf ctx (Name d) ''ID_MODEL'' of Some v \<Rightarrow> v | None \<Rightarrow> UNKNOWN)"
    using arg_cong [OF d, of Model]
    by (simp add: newDisk_def diskModel_def propertyOf_def split: option.splits)
  show "SerialNumber d =
           (case propertyOf ctx (Name d) ''ID_SERIAL_SHORT'' of Some v \<Rightarrow> v | None \<Rightarrow> UNKNOWN)"
    using arg_cong [OF d, of SerialNumber]
    by (simp add: newDisk_def diskSerialNumber_def propertyOf_def split: option.splits)
  show "WWN d =
           (case propertyOf ctx (Name d) ''ID_WWN_WITH_EXTENSION'' of
              Some v \<Rightarrow> v
            | None \<Rightarrow> (case propertyOf ctx (Name d) ''ID_WWN'' of Some v \<Rightarrow> v | None \<Rightarrow> UNKNOWN))"
    using arg_cong [OF d, of WWN]
    by (simp add: newDisk_def diskWWN_def propertyOf_def split: option.splits)
  show "NUMANodeID d = diskNUMANodeID ctx (Name d)"
    using arg_cong [OF d, of NUMANodeID] by (simp add: newDisk_def)
  show "SizeBytes d =
           (case ReadFile ctx (Join [pathSysBlock ctx, Name d, ''size'']) of
              ReadFailed _ \<Rightarrow> 0
            | Contents contents \<Rightarrow>
                (case ParseUint (TrimSpace contents) of None \<Rightarrow> 0 | Some sz \<Rightarrow> sz * 512))"
    using arg_cong [OF d, of SizeBytes]
    by (simp add: newDisk_def diskSizeBytes_def sectorSize_def split: fileread.splits option.splits)
qed

lemma blockFillInfo_Inr:
  "blockFillInfo ctx info = Inr snapshot \<Longrightarrow>
     disks ctx = Inr (Disks snapshot)
     \<and> TotalPhysicalBytes snapshot = foldl (\<lambda>tpb d. tpb + SizeBytes d) 0 (Disks snapshot)"
  by (cases "disks ctx") (auto simp: blockFillInfo_def)

text \<open>
  Claim C9. In a returned snapshot the size of every disk and of every partition is a
  multiple of 512 that is not negative, and it is 0 when the size attribute cannot be
  read or holds no decimal number. Such a device stays in the snapshot, its other
  fields filled in: the disks are the listed names without the loop devices, and the
  partitions of a disk the names listed in its directory that begin with its name;
  every other field of a disk is what its own attribute file, its properties record,
  its link or its name gives, whatever the size attribute holds; and every partition
  has its owner and the mount point, type and read-only flag of its mount lookup.
\<close>

theorem snapshot_sizes:
  assumes "blockFillInfo ctx info = Inr snapshot" and "d \<in> set (Disks snapshot)"
  shows "0 \<le> uint (SizeBytes d) \<and> 512 dvd uint (SizeBytes d)
     \<and> (sizeUnusable (ReadFile ctx (Join [pathSysBlock ctx, Name d, ''size''])) \<longrightarrow>
          SizeBytes d = 0)
     \<and> d = (newDisk ctx (Name d))\<lparr>Partitions := Partitions d\<rparr>
     \<and> (\<forall>p\<in>set (Partitions d).
          0 \<le> uint (pSizeBytes p) \<and> 512 dvd uint (pSizeBytes p)
          \<and> (sizeUnusable (ReadFile ctx (Join [pathSysBlock ctx, Name d, pName p, ''size'']))
               \<longrightarrow> pSizeBytes p = 0))
     \<and> (\<forall>files. ReadDir ctx (pathSysBlock ctx) = Some files \<longrightarrow>
          map Name (Disks snapshot) = filter (\<lambda>dname. \<not> HasPrefix dname ''loop'') files)
     \<and> (\<forall>files. ReadDir ctx (Join [pathSysBlock ctx, Name d]) = Some files \<longrightarrow>
          map pName (Partitions d) = filter (\<lambda>fname. HasPrefix fname (Name d)) files)
     \<and> SizeBytes d =
          (case ReadFile ctx (Join [pathSysBlock ctx, Name d, ''size'']) of
             ReadFailed _ \<Rightarrow> 0
           | Contents contents \<Rightarrow>
               (case ParseUint (TrimSpace contents) of None \<Rightarrow> 0 | Some sz \<Rightarrow> sz * 512))
     \<and> PhysicalBlockSizeBytes d =
          (case ReadFile ctx (Join [pathSysBlock ctx, Name d, ''queue'', ''physical_block_size'']) of
             ReadFailed _ \<Rightarrow> 0
           | Contents contents \<Rightarrow>
               (case ParseUint (TrimSpace contents) of None \<Rightarrow> 0 | Some sz \<Rightarrow> sz))
     \<and> DriveType d =
          (if safeIntFromFile ctx (Join [pathSysBlock ctx, Name d, ''queue'', ''rotational'']) \<noteq> 1
           then DRIVE_TYPE_SSD else fst (diskTypes (Name d)))
     \<and> StorageController d = snd (diskTypes (Name d))
     \<and> IsRemovable d =
          (case ReadFile ctx (Join [pathSysBlock ctx, Name d, ''removable'']) of
             ReadFailed _ \<Rightarrow> False
           | Contents contents \<Rightarrow> TrimSpace contents = ''1'')
     \<and> Vendor d =
          (case ReadFile ctx (Join [pathSysBlock ctx, Name d, ''device'', ''vendor'']) of
             ReadFailed _ \<Rightarrow> UNKNOWN
           | Contents contents \<Rightarrow> TrimSpace contents)
     \<and> BusPath d =
          (case propertyOf ctx (Name d) ''ID_PATH'' of Some v \<Rightarrow> v | None \<Rightarrow> UNKNOWN)
     \<and> Model d =
          (case propertyOf ctx (Name d) ''ID_MODEL'' of Some v \<Rightarrow> v | None \<Rightarrow> UNKNOWN)
     \<and> SerialNumber d =
          (case propertyOf ctx (Name d) ''ID_SERIAL_SHORT'' of Some v \<Rightarrow> v | None \<Rightarrow> UNKNOWN)
     \<and> WWN d =
          (case propertyOf ctx (Name d) ''ID_WWN_WITH_EXTENSION'' of
             Some v \<Rightarrow> v
           | None \<Rightarrow> (case propertyOf ctx (Name d) ''ID_WWN'' of Some v \<Rightarrow> v | None \<Rightarrow> UNKNOWN))
     \<and> NUMANodeID d = diskNUMANodeID ctx (Name d)
     \<and> (\<forall>p\<in>set (Partitions d).
          pDisk p = Some (Name d)
          \<and> partitionInfo ctx (pName p) = Inr (pMountPoint p, pType p, pIsReadOnly p)
          \<and> pSizeBytes p =
              (case ReadFile ctx (Join [pathSysBlock ctx, Name d, pName p, ''size'']) of
                 ReadFailed _ \<Rightarrow> 0
               | Contents contents \<Rightarrow>
                   (case ParseUint (TrimSpace contents) of None \<Rightarrow> 0 | Some sz \<Rightarrow> sz * 512)))"
proof -
  from assms(1) have ds: "disks ctx = Inr (Disks snapshot)" by (simp add: blockFillInfo_Inr)
  from disks_derived [OF ds] assms(2)
  have d: "d = (newDisk ctx (Name d))\<lparr>Partitions := Partitions d\<rparr>"
    and ps: "\<forall>p\<in>set (Partitions d).
               pSizeBytes p = partitionSizeBytes ctx (Name d) (pName p)
               \<and> pDisk p = Some (Name d)
               \<and> partitionInfo ctx (pName p) = Inr (pMountPoint p, pType p, pIsReadOnly p)"
    and pn: "\<forall>files. ReadDir ctx (Join [pathSysBlock ctx, Name d]) = Some files \<longrightarrow>
               map pName (Partitions d) = filter (\<lambda>fname. HasPrefix fname (Name d)) files"
    by blast+
  have "SizeBytes d = SizeBytes ((newDisk ctx (Name d))\<lparr>Partitions := Partitions d\<rparr>)"
    using d by simp
  then have sz: "SizeBytes d = diskSizeBytes ctx (Name d)" by (simp add: newDisk_def)
  have 1: "512 dvd uint (SizeBytes d)" by (simp add: sz diskSizeBytes_multiple)
  have 2: "sizeUnusable (ReadFile ctx (Join [pathSysBlock ctx, Name d, ''size''])) \<longrightarrow>
      SizeBytes d = 0"
    by (simp add: sz diskSizeBytes_unusable)
  have 3: "\<forall>p\<in>set (Partitions d).
      0 \<le> uint (pSizeBytes p) \<and> 512 dvd uint (pSizeBytes p)
      \<and> (sizeUnusable (ReadFile ctx (Join [pathSysBlock ctx, Name d, pName p, ''size'']))
           \<longrightarrow> pSizeBytes p = 0)"
    using ps by (simp add: partitionSizeBytes_multiple partitionSizeBytes_unusable)
  have 4: "\<forall>files. ReadDir ctx (pathSysBlock ctx) = Some files \<longrightarrow>
      map Name (Disks snapshot) = filter (\<lambda>dname. \<not> HasPrefix dname ''loop'') files"
    using disks_names [OF ds] by blast
  have 5: "\<forall>p\<in>set (Partitions d).
      pDisk p = Some (Name d)
      \<and> partitionInfo ctx (pName p) = Inr (pMountPoint p, pType p, pIsReadOnly p)
      \<and> pSizeBytes p =
          (case ReadFile ctx (Join [pathSysBlock ctx, Name d, pName p, ''size'']) of
             ReadFailed _ \<Rightarrow> 0
           | Contents contents \<Rightarrow>
               (case ParseUint (TrimSpace contents) of None \<Rightarrow> 0 | Some sz \<Rightarrow> sz * 512))"
    using ps
    by (simp add: partitionSizeBytes_def sectorSize_def split: fileread.splits option.splits)
  note f = disks_fields [OF ds assms(2)]
  have a: "0 \<le> uint (SizeBytes d) \<and> 512 dvd uint (SizeBytes d)
     \<and> (sizeUnusable (ReadFile ctx (Join [pathSysBlock ctx, Name d, ''size''])) \<longrightarrow>
          SizeBytes d = 0)
     \<and> d = (newDisk ctx (Name d))\<lparr>Partitions := Partitions d\<rparr>
     \<and> (\<forall>p\<in>set (Partitions d).
          0 \<le> uint (pSizeBytes p) \<and> 512 dvd uint (pSizeBytes p)
          \<and> (sizeUnusable (ReadFile ctx (Join [pathSysBlock ctx, Name d, pName p, ''size'']))
               \<longrightarrow> pSizeBytes p = 0))
     \<and> (\<forall>files. ReadDir ctx (pathSysBlock ctx) = Some files \<longrightarrow>
          map Name (Disks snapshot) = filter (\<lambda>dname. \<not> HasPrefix dname ''loop'') files)
     \<and> (\<forall>files. ReadDir ctx (Join [pathSysBlock ctx, Name d]) = Some files \<longrightarrow>
          map pName (Partitions d) = filter (\<lambda>fname. HasPrefix fname (Name d)) files)"
    using 1 2 3 4 d pn by simp
  show ?thesis
    by (intro conjI) (use a in blast, use a in blast, use a in blast, use a in blast,
        use a in blast, use a in blast, use a in blast,
        rule f(11), rule f(1), rule f(2), rule f(3), rule f(4), rule f(5), rule f(6),
        rule f(7), rule f(8), rule f(9), rule f(10), rule 5)
qed

theorem snapshot_sizes_witness:
  "blockFillInfo exampleHost emptyInfo = Inr exampleSnapshot
   \<and> map Name (Disks exampleSnapshot) = [''sda'', ''sdb'']
   \<and> map SizeBytes (Disks exampleSnapshot) = [524288, 0]
   \<and> map Vendor (Disks exampleSnapshot) = [''ATA'', ''QEMU'']
   \<and> sizeUnusable (ReadFile exampleHost (Join [pathSysBlock exampleHost, ''sdb'', ''size'']))
   \<and> SizeBytes (Disks exampleSnapshot ! 1) = 0
   \<and> 512 dvd uint (SizeBytes (Disks exampleSnapshot ! 0))
   \<and> map pName (Partitions (Disks exampleSnapshot ! 0)) = [''sda1'', ''sda2'']
   \<and> map pSizeBytes (Partitions (Disks exampleSnapshot ! 0)) = [262144, 0]
   \<and> sizeUnusable
        (ReadFile exampleHost (Join [pathSysBlock exampleHost, ''sda'', ''sda2'', ''size'']))
   \<and> pSizeBytes (Partitions (Disks exampleSnapshot ! 0) ! 1) = 0
   \<and> Vendor (Disks exampleSnapshot ! 1) = ''QEMU''
   \<and> Model (Disks exampleSnapshot ! 1) = ''unknown''
   \<and> StorageController (Disks exampleSnapshot ! 1) = STORAGE_CONTROLLER_SCSI
   \<and> pDisk (Partitions (Disks exampleSnapshot ! 0) ! 1) = Some ''sda''
   \<and> pMountPoint (Partitions (Disks exampleSnapshot ! 0) ! 1) = ''/home''
   \<and> pIsReadOnly (Partitions (Disks exampleSnapshot ! 0) ! 1)"
proof -
  let ?sda = "Disks exampleSnapshot ! 0" and ?sdb = "Disks exampleSnapshot ! 1"
  let ?sda2 = "Partitions ?sda ! 1"
  have e: "blockFillInfo exampleHost emptyInfo = Inr exampleSnapshot" by code_simp
  have names: "map Name (Disks exampleSnapshot) = [''sda'', ''sdb'']" by code_simp
  have sizes: "map SizeBytes (Disks exampleSnapshot) = [524288, 0]" by code_simp
  have vendors: "map Vendor (Disks exampleSnapshot) = [''ATA'', ''QEMU'']" by code_simp
  have pnames: "map pName (Partitions ?sda) = [''sda1'', ''sda2'']" by code_simp
  have psizes: "map pSizeBytes (Partitions ?sda) = [262144, 0]" by code_simp
  have u: "sizeUnusable (ReadFile exampleHost (Join [pathSysBlock exampleHost, ''sdb'', ''size'']))"
    by code_simp
  have pu: "sizeUnusable
      (ReadFile exampleHost (Join [pathSysBlock exampleHost, ''sda'', ''sda2'', ''size'']))"
    by code_simp
  have len: "length (Disks exampleSnapshot) = 2" by code_simp
  have plen: "length (Partitions ?sda) = 2" by code_simp
  have m0: "?sda \<in> set (Disks exampleSnapshot)" and m1: "?sdb \<in> set (Disks exampleSnapshot)"
    using len by simp_all
  have mp: "?sda2 \<in> set (Partitions ?sda)" using plen by simp
  have n0: "Name ?sda = ''sda''" by code_simp
  have n1: "Name ?sdb = ''sdb''" by code_simp
  have pn: "pName ?sda2 = ''sda2''" by code_simp
  have vf: "(case ReadFile exampleHost (Join [pathSysBlock exampleHost, ''sdb'', ''device'', ''vendor'']) of
              ReadFailed _ \<Rightarrow> UNKNOWN
            | Contents contents \<Rightarrow> TrimSpace contents) = ''QEMU''"
    by code_simp
  have mf: "(case propertyOf exampleHost ''sdb'' ''ID_MODEL'' of Some v \<Rightarrow> v | None \<Rightarrow> UNKNOWN)
      = ''unknown''"
    by code_simp
  have cf: "snd (diskTypes ''sdb'') = STORAGE_CONTROLLER_SCSI" by code_simp
  have pf: "partitionInfo exampleHost ''sda2'' = Inr (''/home'', ''ext4'', True)" by code_simp
  note s1 = snapshot_sizes [OF e m1]
  note s0 = snapshot_sizes [OF e m0]
  from s1
  have "sizeUnusable (ReadFile exampleHost (Join [pathSysBlock exampleHost, Name ?sdb, ''size'']))
      \<longrightarrow> SizeBytes ?sdb = 0"
    by blast
  then have z: "SizeBytes ?sdb = 0" using u unfolding n1 by blast
  from s1 have "Vendor ?sdb =
      (case ReadFile exampleHost (Join [pathSysBlock exampleHost, Name ?sdb, ''device'', ''vendor'']) of
         ReadFailed _ \<Rightarrow> UNKNOWN
       | Contents contents \<Rightarrow> TrimSpace contents)"
    by blast
  then have v: "Vendor ?sdb = ''QEMU''" unfolding n1 vf .
  from s1 have "Model ?sdb =
      (case propertyOf exampleHost (Name ?sdb) ''ID_MODEL'' of Some v \<Rightarrow> v | None \<Rightarrow> UNKNOWN)"
    by blast
  then have m: "Model ?sdb = ''unknown''" unfolding n1 mf .
  from s1 have "StorageController ?sdb = snd (diskTypes (Name ?sdb))" by blast
  then have c: "StorageController ?sdb = STORAGE_CONTROLLER_SCSI" unfolding n1 cf .
  from s0 have d: "512 dvd uint (SizeBytes ?sda)"
    and "\<forall>p\<in>set (Partitions ?sda).
        sizeUnusable
          (ReadFile exampleHost (Join [pathSysBlock exampleHost, Name ?sda, pName p, ''size'']))
          \<longrightarrow> pSizeBytes p = 0"
    and "\<forall>p\<in>set (Partitions ?sda).
        pDisk p = Some (Name ?sda)
        \<and> partitionInfo exampleHost (pName p) = Inr (pMountPoint p, pType p, pIsReadOnly p)"
    by blast+
  with mp have "sizeUnusable
      (ReadFile exampleHost (Join [pathSysBlock exampleHost, Name ?sda, pName ?sda2, ''size'']))
      \<longrightarrow> pSizeBytes ?sda2 = 0"
    and "pDisk ?sda2 = Some (Name ?sda)"
    and "partitionInfo exampleHost (pName ?sda2)
          = Inr (pMountPoint ?sda2, pType ?sda2, pIsReadOnly ?sda2)"
    by blast+
  then have pz: "pSizeBytes ?sda2 = 0" and po: "pDisk ?sda2 = Some ''sda''"
    and pm: "pMountPoint ?sda2 = ''/home''" and pr: "pIsReadOnly ?sda2"
    using pu unfolding n0 pn pf by simp_all
  show ?thesis using e names sizes vendors u z d pnames psizes pu pz v m c po pm pr by blast
qed

section \<open>The total\<close>

lemma foldl_sizes:
  "foldl (\<lambda>tpb d. tpb + SizeBytes d) a ds = a + sum_list (map SizeBytes ds)"
  by (induction ds arbitrary: a) (simp_all add: add.assoc)

lemma uint_sum_list: "uint (sum_list ws :: 64 word) = sum_list (map uint ws) mod 2 ^ 64"
proof (induction ws)
  case Nil
  show ?case by simp
next
  case (Cons w ws)
  have "uint (w + sum_list ws) = (uint w + uint (sum_list ws)) mod 2 ^ 64"
    by (simp add: uint_word_ariths)
  also have "\<dots> = (uint w + sum_list (map uint ws) mod 2 ^ 64) mod 2 ^ 64"
    by (simp only: Cons.IH)
  also have "\<dots> = (uint w + sum_list (map uint ws)) mod 2 ^ 64"
    by (rule mod_add_right_eq)
  finally show ?case by simp
qed

lemma exactSum_nonneg: "0 \<le> exactSum ds"
  by (induction ds) (simp_all add: exactSum_def)

lemma total_mod: "uint (foldl (\<lambda>tpb d. tpb + SizeBytes d) 0 ds) = exactSum ds mod 2 ^ 64"
  by (simp add: foldl_sizes uint_sum_list exactSum_def comp_def)

text \<open>
  Claim C7, as amended. In every snapshot the total is the sum of the sizes of its
  disks modulo \<open>2 ^ 64\<close>: it is the exact sum whenever that sum is below \<open>2 ^ 64\<close>, and 0
  when the snapshot has no disk.
\<close>

theorem total_physical_bytes_sum:
  assumes "blockFillInfo ctx info = Inr snapshot"
  shows "uint (TotalPhysicalBytes snapshot) = exactSum (Disks snapshot) mod 2 ^ 64
     \<and> (exactSum (Disks snapshot) < 2 ^ 64 \<longrightarrow>
          uint (TotalPhysicalBytes snapshot) = exactSum (Disks snapshot))
     \<and> (Disks snapshot = [] \<longrightarrow> TotalPhysicalBytes snapshot = 0)"
proof -
  from assms have t: "TotalPhysicalBytes snapshot
      = foldl (\<lambda>tpb d. tpb + SizeBytes d) 0 (Disks snapshot)"
    by (simp add: blockFillInfo_Inr)
  have m: "uint (TotalPhysicalBytes snapshot) = exactSum (Disks snapshot) mod 2 ^ 64"
    by (simp only: t total_mod)
  have "exactSum (Disks snapshot) < 2 ^ 64 \<longrightarrow>
      uint (TotalPhysicalBytes snapshot) = exactSum (Disks snapshot)"
    using m exactSum_nonneg [of "Disks snapshot"] by simp
  moreover have "Disks snapshot = [] \<longrightarrow> TotalPhysicalBytes snapshot = 0"
    using t by simp
  ultimately show ?thesis using m by blast
qed

theorem total_physical_bytes_sum_witness:
  "blockFillInfo exampleHost emptyInfo = Inr exampleSnapshot
   \<and> exactSum (Disks exampleSnapshot) = 524288
   \<and> uint (TotalPhysicalBytes exampleSnapshot) = 524288
   \<and> blockFillInfo hostNoRoot emptyInfo = Inr emptyInfo
   \<and> Disks emptyInfo = []
   \<and> TotalPhysicalBytes emptyInfo = 0"
proof -
  have e: "blockFillInfo exampleHost emptyInfo = Inr exampleSnapshot" by code_simp
  have x: "exactSum (Disks exampleSnapshot) = 524288" by code_simp
  have n: "blockFillInfo hostNoRoot emptyInfo = Inr emptyInfo" by code_simp
  have d: "Disks emptyInfo = []" by (simp add: emptyInfo_def)
  from total_physical_bytes_sum [OF e] x
  have "uint (TotalPhysicalBytes exampleSnapshot) = 524288" by simp
  moreover from total_physical_bytes_sum [OF n] d
  have "TotalPhysicalBytes emptyInfo = 0" by blast
  ultimately show ?thesis using e x n d by blast
qed

text \<open>
  The claim as stated, with the exact sum, fails on \<open>hostHugeDisks\<close>: the two sizes
  are \<open>2 ^ 63\<close> each, their sum is \<open>2 ^ 64\<close>, and the total is 0.
\<close>

theorem total_physical_bytes_wraps:
  "blockFillInfo hostHugeDisks emptyInfo = Inr hugeSnapshot
   \<and> map Name (Disks hugeSnapshot) = [''sda'', ''sdb'']
   \<and> map SizeBytes (Disks hugeSnapshot) = [9223372036854775808, 9223372036854775808]
   \<and> exactSum (Disks hugeSnapshot) = 18446744073709551616
   \<and> TotalPhysicalBytes hugeSnapshot = 0
   \<and> uint (TotalPhysicalBytes hugeSnapshot) \<noteq> exactSum (Disks hugeSnapshot)"
  by code_simp

end
